theory Spec2Isabelle
  imports Complex_Main "HOL-Library.AList"
begin

section \<open>Host values: numbers, objects, JSON, local storage\<close>

text \<open>
  The game is TypeScript on top of a browser.  A JavaScript \<^emph>\<open>number\<close> is modelled by a
  \<^typ>\<open>real\<close>: the model covers the finite numbers and their order, \<open>Math.min\<close> is
  \<^const>\<open>min\<close> and \<open>Math.max\<close> is \<^const>\<open>max\<close>.  \<open>NaN\<close>, the infinities and
  rounding are not part of the model.  Array indices are \<^typ>\<open>int\<close>.

  A value of type \<open>any\<close> (and everything \<open>JSON.parse\<close> returns) is a \<open>jsval\<close>.  An
  object is the list of its own properties in insertion order; \<^const>\<open>map_of\<close> reads a
  property, \<^const>\<open>AList.update\<close> assigns one (in place when the key exists, at the end
  otherwise) and \<^const>\<open>AList.delete\<close> deletes one.  (JavaScript enumerates keys that
  are array indices before the others; the model keeps the insertion order for every
  key, and no property name of the code is an array index.)
\<close>

datatype jsval =
    JUndefined
  | JNull
  | JBool bool
  | JNum real
  | JStr string
  | JArr "jsval list"
  | JObj "(string \<times> jsval) list"

type_synonym jsobject = "(string \<times> jsval) list"

text \<open>The exceptions of the host that the code meets.\<close>

datatype js_error = SyntaxError | TypeError | QuotaExceededError

text \<open>The object spread \<open>{...a, ...b}\<close>: the properties of \<open>a\<close>, each property of
  \<open>b\<close> assigned on top in the order of \<open>b\<close>.\<close>

definition spread :: "('k \<times> 'v) list \<Rightarrow> ('k \<times> 'v) list \<Rightarrow> ('k \<times> 'v) list" where
  "spread a b = fold (\<lambda>(k, v). AList.update k v) b a"

text \<open>The value of a property that may be absent, or a default.\<close>

definition orElse :: "'a option \<Rightarrow> 'a \<Rightarrow> 'a" where
  "orElse p d = (case p of None \<Rightarrow> d | Some v \<Rightarrow> v)"

text \<open>
  What \<open>JSON.stringify\<close> writes for a value, as the value that \<open>JSON.parse\<close> reads back
  from the written text: a property whose value is \<open>undefined\<close> is left out of an
  object, and \<open>undefined\<close> inside an array is written as \<open>null\<close>.
\<close>

fun to_json :: "jsval \<Rightarrow> jsval"
  and to_json_elems :: "jsval list \<Rightarrow> jsval list"
  and to_json_props :: "jsobject \<Rightarrow> jsobject" where
  "to_json (JArr xs) = JArr (to_json_elems xs)"
| "to_json (JObj kvs) = JObj (to_json_props kvs)"
| "to_json JUndefined = JUndefined"
| "to_json JNull = JNull"
| "to_json (JBool b) = JBool b"
| "to_json (JNum r) = JNum r"
| "to_json (JStr s) = JStr s"
| "to_json_elems [] = []"
| "to_json_elems (x # xs) = (if x = JUndefined then JNull else to_json x) # to_json_elems xs"
| "to_json_props [] = []"
| "to_json_props ((k, v) # kvs) =
     (if v = JUndefined then to_json_props kvs else (k, to_json v) # to_json_props kvs)"

text \<open>The truthiness of a value.\<close>

fun js_truthy :: "jsval \<Rightarrow> bool" where
  "js_truthy JUndefined = False"
| "js_truthy JNull = False"
| "js_truthy (JBool b) = b"
| "js_truthy (JNum r) = (r \<noteq> 0)"
| "js_truthy (JStr s) = (s \<noteq> [])"
| "js_truthy (JArr xs) = True"
| "js_truthy (JObj kvs) = True"

text \<open>
  Reading a property \<open>v.k\<close> whose name is neither an array index nor a built-in (the
  code reads \<open>missions\<close>, \<open>lastReset\<close> and \<open>isClaimed\<close> this way): a \<open>TypeError\<close> on \<open>null\<close>
  and \<open>undefined\<close>, the property of an object, and \<open>undefined\<close> on everything else.
\<close>

fun get_prop :: "jsval \<Rightarrow> string \<Rightarrow> js_error + jsval" where
  "get_prop JUndefined k = Inl TypeError"
| "get_prop JNull k = Inl TypeError"
| "get_prop (JObj kvs) k = Inr (orElse (map_of kvs k) JUndefined)"
| "get_prop v k = Inr JUndefined"

text \<open>The decimal notation of an array index.\<close>

definition digit_char :: "nat \<Rightarrow> char" where
  "digit_char d = char_of (48 + d)"

fun string_of_nat :: "nat \<Rightarrow> string" where
  "string_of_nat n =
     (if n < 10 then [digit_char n] else string_of_nat (n div 10) @ [digit_char (n mod 10)])"

text \<open>
  The own enumerable properties of a value, which is what a spread \<open>...v\<close> copies: the
  properties of an object, the elements of an array and the characters of a string
  under their indices, nothing for the other values.
\<close>

fun own_props :: "jsval \<Rightarrow> jsobject" where
  "own_props (JObj kvs) = kvs"
| "own_props (JArr xs) = zip (map string_of_nat [0..<length xs]) xs"
| "own_props (JStr s) = zip (map string_of_nat [0..<length s]) (map (\<lambda>c. JStr [c]) s)"
| "own_props v = []"

text \<open>A value with no \<open>undefined\<close> in it, which is what JSON can represent.\<close>

fun json_clean :: "jsval \<Rightarrow> bool"
  and json_clean_elems :: "jsval list \<Rightarrow> bool"
  and json_clean_props :: "jsobject \<Rightarrow> bool" where
  "json_clean JUndefined = False"
| "json_clean (JArr xs) = json_clean_elems xs"
| "json_clean (JObj kvs) = json_clean_props kvs"
| "json_clean JNull = True"
| "json_clean (JBool b) = True"
| "json_clean (JNum r) = True"
| "json_clean (JStr s) = True"
| "json_clean_elems [] = True"
| "json_clean_elems (x # xs) = (json_clean x \<and> json_clean_elems xs)"
| "json_clean_props [] = True"
| "json_clean_props (kv # kvs) = (json_clean (snd kv) \<and> json_clean_props kvs)"

text \<open>
  A string kept in local storage is seen through what the code does with it: it is
  either the JSON text of a value (\<open>JsonText v\<close>, the text that \<open>JSON.stringify\<close> writes
  for \<open>v\<close>; the decimal notation of a number is the JSON text of that number), or some
  other string (\<open>RawText s\<close>, for a string \<open>s\<close> that is not a JSON text, which \<open>JSON.parse\<close>
  rejects with a \<open>SyntaxError\<close>).  The code passes only objects to \<open>JSON.stringify\<close>.
\<close>

datatype blob = JsonText jsval | RawText string

definition JSON_stringify :: "jsval \<Rightarrow> blob" where
  "JSON_stringify v = JsonText (to_json v)"

fun JSON_parse :: "blob \<Rightarrow> js_error + jsval" where
  "JSON_parse (JsonText v) = Inr v"
| "JSON_parse (RawText s) = Inl SyntaxError"

text \<open>The truthiness of a string: only the empty string is falsy.\<close>

fun truthy :: "blob \<Rightarrow> bool" where
  "truthy (RawText s) = (s \<noteq> [])"
| "truthy (JsonText v) = True"

text \<open>
  \<open>localStorage\<close>: the stored items, and whether a write is accepted (\<open>setItem\<close> throws
  when the quota is exceeded or storage is disabled).
\<close>

record localStorage =
  items :: "string \<rightharpoonup> blob"
  writable :: bool

definition getItem :: "localStorage \<Rightarrow> string \<Rightarrow> blob option" where
  "getItem ls k = items ls k"

definition setItem :: "localStorage \<Rightarrow> string \<Rightarrow> blob \<Rightarrow> js_error + localStorage" where
  "setItem ls k v =
     (if writable ls then Inr (ls\<lparr>items := (items ls)(k \<mapsto> v)\<rparr>) else Inl QuotaExceededError)"

section \<open>GameState (src/game/state/GameState.ts)\<close>

record EnemyPosition =
  pos_x :: real
  pos_y :: real
  pos_id :: string

record WeaponData =
  weapon_name :: string
  weapon_ammo :: real
  hasInfiniteAmmo :: bool

text \<open>\<open>GameStateData\<close>; \<open>currentWeapon\<close> is \<open>WeaponData | null\<close>, the two records
  \<open>inventory\<close> and \<open>flags\<close> hold values of type \<open>any\<close>.\<close>

record GameStateData =
  score :: real
  level :: real
  playerHP :: real
  playerMaxHP :: real
  inventory :: jsobject
  flags :: jsobject
  lastMode :: string
  playerX :: real
  playerY :: real
  enemies :: "EnemyPosition list"
  gs_currentWeapon :: "WeaponData option"

text \<open>\<open>Partial<GameStateData>\<close>: a field is \<open>None\<close> when the key is absent.\<close>

record GameStatePatch =
  p_score :: "real option"
  p_level :: "real option"
  p_playerHP :: "real option"
  p_playerMaxHP :: "real option"
  p_inventory :: "jsobject option"
  p_flags :: "jsobject option"
  p_lastMode :: "string option"
  p_playerX :: "real option"
  p_playerY :: "real option"
  p_enemies :: "EnemyPosition list option"
  p_currentWeapon :: "WeaponData option option"

definition reset :: GameStateData where
  "reset = \<lparr> score = 0, level = 1, playerHP = 100, playerMaxHP = 100,
     inventory = [], flags = [], lastMode = ''campaign'', playerX = 0, playerY = 0,
     enemies = [],
     gs_currentWeapon = Some \<lparr> weapon_name = ''Pea Shooter'', weapon_ammo = - 1,
       hasInfiniteAmmo = True \<rparr> \<rparr>"

text \<open>\<open>setData\<close>: \<open>this.data = { ...this.data, ...data }\<close>.\<close>

definition setData :: "GameStatePatch \<Rightarrow> GameStateData \<Rightarrow> GameStateData" where
  "setData p d = \<lparr>
     score = orElse (p_score p) (score d),
     level = orElse (p_level p) (level d),
     playerHP = orElse (p_playerHP p) (playerHP d),
     playerMaxHP = orElse (p_playerMaxHP p) (playerMaxHP d),
     inventory = orElse (p_inventory p) (inventory d),
     flags = orElse (p_flags p) (flags d),
     lastMode = orElse (p_lastMode p) (lastMode d),
     playerX = orElse (p_playerX p) (playerX d),
     playerY = orElse (p_playerY p) (playerY d),
     enemies = orElse (p_enemies p) (enemies d),
     gs_currentWeapon = orElse (p_currentWeapon p) (gs_currentWeapon d) \<rparr>"

definition updateScore :: "real \<Rightarrow> GameStateData \<Rightarrow> GameStateData" where
  "updateScore points d = d\<lparr>score := score d + points\<rparr>"

definition setScore :: "real \<Rightarrow> GameStateData \<Rightarrow> GameStateData" where
  "setScore s d = d\<lparr>score := s\<rparr>"

definition setLevel :: "real \<Rightarrow> GameStateData \<Rightarrow> GameStateData" where
  "setLevel l d = d\<lparr>level := l\<rparr>"

definition setPlayerHP :: "real \<Rightarrow> GameStateData \<Rightarrow> GameStateData" where
  "setPlayerHP hp d = d\<lparr>playerHP := max 0 (min hp (playerMaxHP d))\<rparr>"

definition setPlayerMaxHP :: "real \<Rightarrow> GameStateData \<Rightarrow> GameStateData" where
  "setPlayerMaxHP maxHP d =
     (let d1 = d\<lparr>playerMaxHP := maxHP\<rparr> in d1\<lparr>playerHP := min (playerHP d1) maxHP\<rparr>)"

definition setLastMode :: "string \<Rightarrow> GameStateData \<Rightarrow> GameStateData" where
  "setLastMode m d = d\<lparr>lastMode := m\<rparr>"

definition setPlayerPosition :: "real \<Rightarrow> real \<Rightarrow> GameStateData \<Rightarrow> GameStateData" where
  "setPlayerPosition px py d = d\<lparr>playerX := px, playerY := py\<rparr>"

definition setEnemies :: "EnemyPosition list \<Rightarrow> GameStateData \<Rightarrow> GameStateData" where
  "setEnemies es d = d\<lparr>enemies := es\<rparr>"

definition setCurrentWeapon :: "WeaponData option \<Rightarrow> GameStateData \<Rightarrow> GameStateData" where
  "setCurrentWeapon w d = d\<lparr>gs_currentWeapon := w\<rparr>"

definition addItem :: "string \<Rightarrow> jsval \<Rightarrow> GameStateData \<Rightarrow> GameStateData" where
  "addItem k v d = d\<lparr>inventory := AList.update k v (inventory d)\<rparr>"

text \<open>\<open>GameState.getItem\<close> (the plain name is taken by \<open>localStorage.getItem\<close>).\<close>

definition getItem_inv :: "string \<Rightarrow> GameStateData \<Rightarrow> jsval" where
  "getItem_inv k d = orElse (map_of (inventory d) k) JUndefined"

definition removeItem :: "string \<Rightarrow> GameStateData \<Rightarrow> GameStateData" where
  "removeItem k d = d\<lparr>inventory := AList.delete k (inventory d)\<rparr>"

definition setFlag :: "string \<Rightarrow> bool \<Rightarrow> GameStateData \<Rightarrow> GameStateData" where
  "setFlag k b d = d\<lparr>flags := AList.update k (JBool b) (flags d)\<rparr>"

text \<open>\<open>getFlag\<close>: \<open>this.data.flags[key] || false\<close>.\<close>

definition getFlag :: "string \<Rightarrow> GameStateData \<Rightarrow> jsval" where
  "getFlag k d =
     (let v = orElse (map_of (flags d) k) JUndefined in if js_truthy v then v else JBool False)"

subsection \<open>Persistence\<close>

text \<open>The object \<open>this.data\<close> as a value: what \<open>JSON.stringify\<close> and the spread see.\<close>

definition position_to_js :: "EnemyPosition \<Rightarrow> jsval" where
  "position_to_js e = JObj [(''x'', JNum (pos_x e)), (''y'', JNum (pos_y e)), (''id'', JStr (pos_id e))]"

definition weapon_to_js :: "WeaponData option \<Rightarrow> jsval" where
  "weapon_to_js w =
     (case w of
        None \<Rightarrow> JNull
      | Some wd \<Rightarrow> JObj [(''name'', JStr (weapon_name wd)), (''ammo'', JNum (weapon_ammo wd)),
          (''hasInfiniteAmmo'', JBool (hasInfiniteAmmo wd))])"

definition data_to_js :: "GameStateData \<Rightarrow> jsobject" where
  "data_to_js d =
     [(''score'', JNum (score d)),
      (''level'', JNum (level d)),
      (''playerHP'', JNum (playerHP d)),
      (''playerMaxHP'', JNum (playerMaxHP d)),
      (''inventory'', JObj (inventory d)),
      (''flags'', JObj (flags d)),
      (''lastMode'', JStr (lastMode d)),
      (''playerX'', JNum (playerX d)),
      (''playerY'', JNum (playerY d)),
      (''enemies'', JArr (map position_to_js (enemies d))),
      (''currentWeapon'', weapon_to_js (gs_currentWeapon d))]"

definition game_state_key :: string where
  "game_state_key = ''vc_game_state_v1''"

text \<open>\<open>saveToStorage\<close>: an exception of \<open>setItem\<close> is caught and logged.\<close>

definition saveToStorage :: "localStorage \<Rightarrow> GameStateData \<Rightarrow> localStorage" where
  "saveToStorage ls d =
     (case setItem ls game_state_key (JSON_stringify (JObj (data_to_js d))) of
        Inl err \<Rightarrow> ls
      | Inr ls1 \<Rightarrow> ls1)"

text \<open>
  \<open>loadFromStorage\<close>: the value returned and the new \<open>this.data\<close>, as the object that the
  spread builds (nothing checks that it has the fields of \<open>GameStateData\<close>).
\<close>

definition loadFromStorage :: "localStorage \<Rightarrow> GameStateData \<Rightarrow> bool \<times> jsobject" where
  "loadFromStorage ls d =
     (case getItem ls game_state_key of
        None \<Rightarrow> (False, data_to_js d)
      | Some saved \<Rightarrow>
          if truthy saved then
            (case JSON_parse saved of
               Inl err \<Rightarrow> (False, data_to_js d)
             | Inr parsed \<Rightarrow> (True, spread (data_to_js d) (own_props parsed)))
          else (False, data_to_js d))"

text \<open>A state that JSON can represent: no \<open>undefined\<close> inside \<open>inventory\<close> or \<open>flags\<close>.\<close>

definition storable :: "GameStateData \<Rightarrow> bool" where
  "storable d = (json_clean_props (inventory d) \<and> json_clean_props (flags d))"

subsection \<open>Sequences of calls\<close>

text \<open>The mutators of the in-memory state, as one datatype, and a sequence of calls.\<close>

datatype gs_op =
    Reset
  | SetData GameStatePatch
  | UpdateScore real
  | SetScore real
  | SetLevel real
  | SetPlayerHP real
  | SetPlayerMaxHP real
  | SetLastMode string
  | SetPlayerPosition real real
  | SetEnemies "EnemyPosition list"
  | SetCurrentWeapon "WeaponData option"
  | AddItem string jsval
  | RemoveItem string
  | SetFlag string bool

fun apply_gs_op :: "gs_op \<Rightarrow> GameStateData \<Rightarrow> GameStateData" where
  "apply_gs_op Reset d = reset"
| "apply_gs_op (SetData p) d = setData p d"
| "apply_gs_op (UpdateScore n) d = updateScore n d"
| "apply_gs_op (SetScore n) d = setScore n d"
| "apply_gs_op (SetLevel n) d = setLevel n d"
| "apply_gs_op (SetPlayerHP hp) d = setPlayerHP hp d"
| "apply_gs_op (SetPlayerMaxHP m) d = setPlayerMaxHP m d"
| "apply_gs_op (SetLastMode m) d = setLastMode m d"
| "apply_gs_op (SetPlayerPosition px py) d = setPlayerPosition px py d"
| "apply_gs_op (SetEnemies es) d = setEnemies es d"
| "apply_gs_op (SetCurrentWeapon w) d = setCurrentWeapon w d"
| "apply_gs_op (AddItem k v) d = addItem k v d"
| "apply_gs_op (RemoveItem k) d = removeItem k d"
| "apply_gs_op (SetFlag k b) d = setFlag k b d"

text \<open>The calls run left to right, on the state the constructor leaves (\<open>reset\<close>).\<close>

definition run_gs :: "gs_op list \<Rightarrow> GameStateData" where
  "run_gs ops = fold apply_gs_op ops reset"

definition hp_clamped :: "GameStateData \<Rightarrow> bool" where
  "hp_clamped d = (0 \<le> playerHP d \<and> playerHP d \<le> playerMaxHP d)"

text \<open>The calls that keep the hit points clamped whatever their argument: every
  mutator but \<open>setData\<close> with a \<open>playerHP\<close> or \<open>playerMaxHP\<close> key and \<open>setPlayerMaxHP\<close>
  with a negative maximum.\<close>

fun hp_safe :: "gs_op \<Rightarrow> bool" where
  "hp_safe (SetData p) = (p_playerHP p = None \<and> p_playerMaxHP p = None)"
| "hp_safe (SetPlayerMaxHP m) = (0 \<le> m)"
| "hp_safe _ = True"

definition no_patch :: GameStatePatch where
  "no_patch = \<lparr> p_score = None, p_level = None, p_playerHP = None, p_playerMaxHP = None,
     p_inventory = None, p_flags = None, p_lastMode = None, p_playerX = None, p_playerY = None,
     p_enemies = None, p_currentWeapon = None \<rparr>"

section \<open>Player (src/game/entities/Player.ts)\<close>

datatype PowerUpType = DAMAGE_BOOST | SPEED_BOOST | FIRE_RATE_BOOST | INSTANT_HEAL

text \<open>\<open>PowerUpEffect\<close>; \<open>timerBar\<close> records whether a HUD bar is attached to the effect.\<close>

record PowerUpEffect =
  multiplier :: real
  duration :: real
  remainingTime :: real
  timerBar :: bool

record Weapon =
  w_name :: string
  w_damage :: real
  w_fireRate :: real
  w_ammo :: real
  w_projectileTexture :: string

definition weapons :: "Weapon list" where
  "weapons =
     [\<lparr> w_name = ''Pea Shooter'', w_damage = 10, w_fireRate = 150, w_ammo = - 1,
         w_projectileTexture = ''projectile_pea'' \<rparr>,
      \<lparr> w_name = ''Corn Cannon'', w_damage = 25, w_fireRate = 400, w_ammo = 30,
         w_projectileTexture = ''projectile_corn'' \<rparr>,
      \<lparr> w_name = ''Beet Bazooka'', w_damage = 50, w_fireRate = 800, w_ammo = 10,
         w_projectileTexture = ''projectile_beet'' \<rparr>]"

definition PLAYER_SPEED :: real where
  "PLAYER_SPEED = 200"

text \<open>
  The fields of \<open>Player\<close> that shooting, weapon switching and the power-up system read or
  write.  \<open>activePowerUps\<close> is a \<open>Map\<close>: its entries in insertion order, \<open>get\<close> is
  \<^const>\<open>map_of\<close>, \<open>set\<close> is \<^const>\<open>AList.update\<close>, \<open>delete\<close> is \<^const>\<open>AList.delete\<close>.
\<close>

record Player =
  currentWeapon :: int
  currentAmmo :: real
  maxAmmo :: real
  moveSpeed :: real
  lastShotTime :: real
  activePowerUps :: "(PowerUpType \<times> PowerUpEffect) list"
  baseMoveSpeed :: real
  baseDamageMultiplier :: real
  baseFireRateMultiplier :: real

text \<open>\<open>this.weapons[i]\<close>: \<open>undefined\<close> outside the table, and reading a property of it
  throws.\<close>

definition weapon_at :: "int \<Rightarrow> js_error + Weapon" where
  "weapon_at i = (if 0 \<le> i \<and> i < int (length weapons) then Inr (weapons ! nat i) else Inl TypeError)"

definition updateWeaponStats :: "Player \<Rightarrow> js_error + Player" where
  "updateWeaponStats p =
     (case weapon_at (currentWeapon p) of
        Inl e \<Rightarrow> Inl e
      | Inr weapon \<Rightarrow> Inr (p\<lparr>maxAmmo := w_ammo weapon, currentAmmo := w_ammo weapon\<rparr>))"

text \<open>The field initialisers of the class; the constructor then calls
  \<open>updateWeaponStats\<close>.\<close>

definition Player_fields :: Player where
  "Player_fields = \<lparr> currentWeapon = 0, currentAmmo = - 1, maxAmmo = - 1,
     moveSpeed = PLAYER_SPEED, lastShotTime = 0, activePowerUps = [],
     baseMoveSpeed = PLAYER_SPEED, baseDamageMultiplier = 1, baseFireRateMultiplier = 1 \<rparr>"

definition new_Player :: "js_error + Player" where
  "new_Player = updateWeaponStats Player_fields"

text \<open>The remainder operator \<open>%\<close> on integers: the result has the sign of the
  dividend.\<close>

definition js_rem :: "int \<Rightarrow> int \<Rightarrow> int" where
  "js_rem a b = sgn a * (\<bar>a\<bar> mod \<bar>b\<bar>)"

definition switchWeapon :: "int \<Rightarrow> Player \<Rightarrow> js_error + Player" where
  "switchWeapon direction p =
     (let newWeapon = js_rem (currentWeapon p + direction + int (length weapons))
                        (int (length weapons))
      in updateWeaponStats (p\<lparr>currentWeapon := newWeapon\<rparr>))"

text \<open>The local variables of \<open>recalculateStats\<close>, and the event it emits.\<close>

record Multipliers =
  damageMultiplier :: real
  speedMultiplier :: real
  fireRateMultiplier :: real

record StatsChanged =
  ev_damageMultiplier :: real
  ev_speedMultiplier :: real
  ev_fireRateMultiplier :: real

fun stack_effect :: "PowerUpType \<times> PowerUpEffect \<Rightarrow> Multipliers \<Rightarrow> Multipliers" where
  "stack_effect (DAMAGE_BOOST, effect) m =
     m\<lparr>damageMultiplier := damageMultiplier m * multiplier effect\<rparr>"
| "stack_effect (SPEED_BOOST, effect) m =
     m\<lparr>speedMultiplier := speedMultiplier m * multiplier effect\<rparr>"
| "stack_effect (FIRE_RATE_BOOST, effect) m =
     m\<lparr>fireRateMultiplier := fireRateMultiplier m * multiplier effect\<rparr>"
| "stack_effect (INSTANT_HEAL, effect) m = m"

definition stacked :: "Player \<Rightarrow> Multipliers" where
  "stacked p = fold stack_effect (activePowerUps p)
     \<lparr> damageMultiplier = baseDamageMultiplier p, speedMultiplier = 1,
       fireRateMultiplier = baseFireRateMultiplier p \<rparr>"

definition capped :: "Multipliers \<Rightarrow> Multipliers" where
  "capped m = \<lparr> damageMultiplier = min (damageMultiplier m) 2,
     speedMultiplier = min (speedMultiplier m) 1.5,
     fireRateMultiplier = min (fireRateMultiplier m) 2 \<rparr>"

definition recalculateStats :: "Player \<Rightarrow> Player \<times> StatsChanged" where
  "recalculateStats p =
     (let m = capped (stacked p) in
        (p\<lparr>moveSpeed := baseMoveSpeed p * speedMultiplier m\<rparr>,
         \<lparr> ev_damageMultiplier = damageMultiplier m,
           ev_speedMultiplier = speedMultiplier m - 1,
           ev_fireRateMultiplier = fireRateMultiplier m \<rparr>))"

definition applyPowerUp :: "PowerUpType \<Rightarrow> real \<Rightarrow> real \<Rightarrow> Player \<Rightarrow> Player \<times> StatsChanged" where
  "applyPowerUp powerUpType m durationMs p =
     (case map_of (activePowerUps p) powerUpType of
        Some existingEffect \<Rightarrow>
          recalculateStats (p\<lparr>activePowerUps :=
            AList.update powerUpType
              (existingEffect\<lparr>multiplier := max (multiplier existingEffect) m,
                 remainingTime := durationMs, duration := durationMs\<rparr>)
              (activePowerUps p)\<rparr>)
      | None \<Rightarrow>
          recalculateStats (p\<lparr>activePowerUps :=
            AList.update powerUpType
              \<lparr> multiplier = m, duration = durationMs, remainingTime = durationMs,
                timerBar = True \<rparr>
              (activePowerUps p)\<rparr>))"

definition removePowerUp :: "PowerUpType \<Rightarrow> Player \<Rightarrow> Player" where
  "removePowerUp powerUpType p =
     (case map_of (activePowerUps p) powerUpType of
        Some effect \<Rightarrow> p\<lparr>activePowerUps := AList.delete powerUpType (activePowerUps p)\<rparr>
      | None \<Rightarrow> p)"

text \<open>One round of the loop of \<open>updatePowerUps\<close>, for the entry of one type; the flag is
  the local variable \<open>recalculateStats\<close>.\<close>

definition tick_effect :: "real \<Rightarrow> PowerUpType \<Rightarrow> Player \<times> bool \<Rightarrow> Player \<times> bool" where
  "tick_effect delta powerUpType pr =
     (case map_of (activePowerUps (fst pr)) powerUpType of
        None \<Rightarrow> pr
      | Some effect \<Rightarrow>
          (let effect1 = effect\<lparr>remainingTime := remainingTime effect - delta\<rparr>;
               p1 = (fst pr)\<lparr>activePowerUps :=
                      AList.update powerUpType effect1 (activePowerUps (fst pr))\<rparr>
           in if remainingTime effect1 \<le> 0 then (removePowerUp powerUpType p1, True)
              else (p1, snd pr)))"

definition updatePowerUps :: "real \<Rightarrow> Player \<Rightarrow> Player \<times> StatsChanged option" where
  "updatePowerUps delta p =
     (let pr = fold (tick_effect delta) (map fst (activePowerUps p)) (p, False)
      in if snd pr then (fst (recalculateStats (fst pr)), Some (snd (recalculateStats (fst pr))))
         else (fst pr, None))"

text \<open>
  \<open>shoot\<close>, at time \<open>now = Date.now()\<close>: the updated player and the projectile created,
  if any.  The cooldown is \<open>weapon.fireRate / this.baseFireRateMultiplier\<close>; every weapon
  has a positive fire rate, so a zero multiplier makes the cooldown infinite and no shot
  is fired.
\<close>

record Projectile =
  proj_texture :: string
  proj_damage :: real
  isPlayerProjectile :: bool

definition shoot :: "real \<Rightarrow> Player \<Rightarrow> js_error + Player \<times> Projectile option" where
  "shoot now p =
     (case weapon_at (currentWeapon p) of
        Inl e \<Rightarrow> Inl e
      | Inr weapon \<Rightarrow>
          if baseFireRateMultiplier p = 0 then Inr (p, None)
          else if now - lastShotTime p < w_fireRate weapon / baseFireRateMultiplier p
            then Inr (p, None)
          else if w_ammo weapon \<noteq> - 1 \<and> currentAmmo p \<le> 0 then Inr (p, None)
          else Inr
            (p\<lparr>currentAmmo := (if w_ammo weapon \<noteq> - 1 then currentAmmo p - 1 else currentAmmo p),
               lastShotTime := now\<rparr>,
             Some \<lparr> proj_texture = w_projectileTexture weapon,
               proj_damage = of_int \<lfloor>w_damage weapon * baseDamageMultiplier p\<rfloor>,
               isPlayerProjectile = True \<rparr>))"

text \<open>What happens to a player between construction and a given moment.\<close>

datatype player_event =
    ApplyPowerUp PowerUpType real real
  | UpdatePowerUps real
  | SwitchWeapon int
  | Shoot real

fun player_step :: "player_event \<Rightarrow> Player \<Rightarrow> js_error + Player" where
  "player_step (ApplyPowerUp t m d) p = Inr (fst (applyPowerUp t m d p))"
| "player_step (UpdatePowerUps delta) p = Inr (fst (updatePowerUps delta p))"
| "player_step (SwitchWeapon direction) p = switchWeapon direction p"
| "player_step (Shoot now) p = map_sum id fst (shoot now p)"

fun player_run :: "player_event list \<Rightarrow> Player \<Rightarrow> js_error + Player" where
  "player_run [] p = Inr p"
| "player_run (e # es) p =
     (case player_step e p of Inl err \<Rightarrow> Inl err | Inr p1 \<Rightarrow> player_run es p1)"

text \<open>The player after construction and a sequence of events, and the active effects of
  one type.\<close>

definition player_after :: "player_event list \<Rightarrow> js_error + Player" where
  "player_after es = (case new_Player of Inl err \<Rightarrow> Inl err | Inr p \<Rightarrow> player_run es p)"

definition effects_of_type :: "PowerUpType \<Rightarrow> Player \<Rightarrow> (PowerUpType \<times> PowerUpEffect) list" where
  "effects_of_type t p = filter (\<lambda>entry. fst entry = t) (activePowerUps p)"

text \<open>A weapon switch by one step, as the two key handlers of the game scene make
  it.\<close>

fun unit_switch :: "player_event \<Rightarrow> bool" where
  "unit_switch (SwitchWeapon direction) = (direction = - 1 \<or> direction = 1)"
| "unit_switch _ = True"

section \<open>Enemy (src/game/entities/Enemy.ts)\<close>























section \<open>Settings (src/game/systems/Settings.ts)\<close>

text \<open>
  \<open>this.settings\<close> is an object; after \<open>loadSettings\<close> it holds whatever the stored JSON
  held, so it is modelled as the list of its properties.
\<close>

definition STORAGE_KEY :: string where
  "STORAGE_KEY = ''veggie-clash-settings''"

definition defaultKeyBindings :: jsobject where
  "defaultKeyBindings =
     [(''moveUp'', JStr ''W''),
      (''moveDown'', JStr ''S''),
      (''moveLeft'', JStr ''A''),
      (''moveRight'', JStr ''D''),
      (''shoot'', JStr ''MOUSE_LEFT''),
      (''altFire'', JStr ''MOUSE_RIGHT''),
      (''dash'', JStr ''SPACE''),
      (''reload'', JStr ''R''),
      (''weaponPrev'', JStr ''Q''),
      (''weaponNext'', JStr ''E''),
      (''pause'', JStr ''ESC'')]"

definition getDefaultSettings :: jsobject where
  "getDefaultSettings =
     [(''masterVolume'', JNum 0.7),
      (''sfxVolume'', JNum 0.8),
      (''musicVolume'', JNum 0.6),
      (''audioEnabled'', JBool True),
      (''particleQuality'', JStr ''high''),
      (''graphicsQuality'', JStr ''high''),
      (''screenShake'', JBool True),
      (''enableVignette'', JBool True),
      (''enableAmbientFog'', JBool True),
      (''enableBloom'', JBool True),
      (''enableCRTOvrelay'', JBool False),
      (''enableOutlines'', JBool True),
      (''enableShadows'', JBool True),
      (''highContrast'', JBool False),
      (''colorBlindMode'', JBool False),
      (''reduceMotion'', JBool False),
      (''showSubtitles'', JBool True),
      (''keyBindings'', JObj defaultKeyBindings),
      (''mouseSensitivity'', JNum 1),
      (''joystickDeadzone'', JNum 0.1),
      (''autoAim'', JBool True)]"

text \<open>
  \<open>loadSettings\<close>, from the current settings to the new ones.  (It ends with
  \<open>applyAccessibilitySettings\<close>, which sets classes of the document's body and leaves the
  settings as they are.)
\<close>

definition loadSettings :: "localStorage \<Rightarrow> jsobject \<Rightarrow> jsobject" where
  "loadSettings ls settings =
     (case getItem ls STORAGE_KEY of
        None \<Rightarrow> settings
      | Some saved \<Rightarrow>
          if truthy saved then
            (case JSON_parse saved of
               Inl err \<Rightarrow> getDefaultSettings
             | Inr parsedSettings \<Rightarrow> spread getDefaultSettings (own_props parsedSettings))
          else settings)"

text \<open>The constructor: \<open>this.settings = this.getDefaultSettings(); this.loadSettings()\<close>.
  It is private and is the only caller of \<open>loadSettings\<close>.\<close>

definition new_Settings :: "localStorage \<Rightarrow> jsobject" where
  "new_Settings ls = loadSettings ls getDefaultSettings"

text \<open>\<open>saveSettings\<close>: an exception of \<open>setItem\<close> is caught and logged.\<close>

definition saveSettings :: "localStorage \<Rightarrow> jsobject \<Rightarrow> localStorage" where
  "saveSettings ls settings =
     (case setItem ls STORAGE_KEY (JSON_stringify (JObj settings)) of
        Inl err \<Rightarrow> ls
      | Inr ls1 \<Rightarrow> ls1)"

text \<open>
  \<open>rebindKey\<close>: the value returned, the settings and local storage afterwards.
  \<open>keyBindings\<close> is declared a \<open>Record<string, string>\<close>; the model covers the settings
  in which it is an object and gives \<open>None\<close> for the others (a stored blob can put any
  value there).  \<open>existingAction\<close> is the first key, in the order of \<open>Object.keys\<close>, whose
  value is strictly equal to \<open>newKey\<close>; the test \<open>existingAction && \<dots>\<close> takes the empty
  string for no action at all.
\<close>

definition existingAction :: "jsobject \<Rightarrow> string \<Rightarrow> string option" where
  "existingAction keyBindings newKey =
     find (\<lambda>act. map_of keyBindings act = Some (JStr newKey)) (map fst keyBindings)"

definition rebindKey ::
  "string \<Rightarrow> string \<Rightarrow> jsobject \<Rightarrow> localStorage \<Rightarrow> (bool \<times> jsobject \<times> localStorage) option" where
  "rebindKey action newKey settings ls =
     (case map_of settings ''keyBindings'' of
        Some (JObj keyBindings) \<Rightarrow>
          (case existingAction keyBindings newKey of
             Some act \<Rightarrow>
               if act \<noteq> [] \<and> act \<noteq> action then Some (False, settings, ls)
               else
                 (let settings1 = AList.update ''keyBindings''
                        (JObj (AList.update action (JStr newKey) keyBindings)) settings
                  in Some (True, settings1, saveSettings ls settings1))
           | None \<Rightarrow>
               (let settings1 = AList.update ''keyBindings''
                      (JObj (AList.update action (JStr newKey) keyBindings)) settings
                in Some (True, settings1, saveSettings ls settings1)))
      | _ \<Rightarrow> None)"

text \<open>\<open>newKey\<close> is bound to an action other than \<open>action\<close>.\<close>

definition bound_elsewhere :: "jsobject \<Rightarrow> string \<Rightarrow> string \<Rightarrow> bool" where
  "bound_elsewhere keyBindings action newKey =
     list_ex (\<lambda>kv. fst kv \<noteq> action \<and> map_of keyBindings (fst kv) = Some (JStr newKey)) keyBindings"

section \<open>MissionManager: loading the progress (src/game/systems/MissionManager.ts)\<close>

text \<open>
  The two fields \<open>loadProgress\<close> writes.  A mission is kept as the value read from the
  stored JSON, and so is \<open>lastReset\<close>: nothing checks the shape of what was stored.
\<close>

record MissionManager =
  missions :: "jsval list"
  lastReset :: jsval

definition missions_key :: string where
  "missions_key = ''veggieClash_missions''"

text \<open>
  The callback of \<open>filter\<close>:
  \<open>!mission.isClaimed || (Date.now() - this.lastReset < 7 * 24 * 60 * 60 * 1000)\<close>.
  \<open>ToNumber\<close> is the host's conversion of \<open>this.lastReset\<close> to a number (\<open>None\<close> for
  \<open>NaN\<close>), a parameter of the model; \<open>now\<close> is \<open>Date.now()\<close>.
\<close>

definition keep_mission ::
  "(jsval \<Rightarrow> real option) \<Rightarrow> real \<Rightarrow> jsval \<Rightarrow> jsval \<Rightarrow> js_error + bool" where
  "keep_mission ToNumber now resetAt mission =
     (case get_prop mission ''isClaimed'' of
        Inl err \<Rightarrow> Inl err
      | Inr claimed \<Rightarrow>
          Inr (\<not> js_truthy claimed \<or>
               (case ToNumber resetAt of
                  None \<Rightarrow> False
                | Some r \<Rightarrow> now - r < 7 * 24 * 60 * 60 * 1000)))"

fun filter_missions ::
  "(jsval \<Rightarrow> real option) \<Rightarrow> real \<Rightarrow> jsval \<Rightarrow> jsval list \<Rightarrow> js_error + jsval list" where
  "filter_missions ToNumber now resetAt [] = Inr []"
| "filter_missions ToNumber now resetAt (m # ms) =
     (case keep_mission ToNumber now resetAt m of
        Inl err \<Rightarrow> Inl err
      | Inr keep \<Rightarrow>
          (case filter_missions ToNumber now resetAt ms of
             Inl err \<Rightarrow> Inl err
           | Inr kept \<Rightarrow> Inr (if keep then m # kept else kept)))"

text \<open>The \<open>try\<close> block for a stored string that is truthy; \<open>this.missions.filter\<close> throws
  a \<open>TypeError\<close> unless \<open>progress.missions\<close> is an array.\<close>

definition load_saved ::
  "(jsval \<Rightarrow> real option) \<Rightarrow> real \<Rightarrow> blob \<Rightarrow> js_error + MissionManager" where
  "load_saved ToNumber now saved =
     (case JSON_parse saved of
        Inl err \<Rightarrow> Inl err
      | Inr progress \<Rightarrow>
          (case get_prop progress ''missions'' of
             Inl err \<Rightarrow> Inl err
           | Inr ms \<Rightarrow>
               (case get_prop progress ''lastReset'' of
                  Inl err \<Rightarrow> Inl err
                | Inr resetAt \<Rightarrow>
                    (case ms of
                       JArr xs \<Rightarrow>
                         (case filter_missions ToNumber now resetAt xs of
                            Inl err \<Rightarrow> Inl err
                          | Inr kept \<Rightarrow> Inr \<lparr> missions = kept, lastReset = resetAt \<rparr>)
                     | _ \<Rightarrow> Inl TypeError))))"

definition loadProgress ::
  "(jsval \<Rightarrow> real option) \<Rightarrow> real \<Rightarrow> localStorage \<Rightarrow> MissionManager \<Rightarrow> MissionManager" where
  "loadProgress ToNumber now ls m =
     (case getItem ls missions_key of
        None \<Rightarrow> m\<lparr>lastReset := JNum 0\<rparr>
      | Some saved \<Rightarrow>
          if truthy saved then
            (case load_saved ToNumber now saved of
               Inl err \<Rightarrow> \<lparr> missions = [], lastReset = JNum 0 \<rparr>
             | Inr m1 \<Rightarrow> m1)
          else m\<lparr>lastReset := JNum 0\<rparr>)"

text \<open>The field initialisers of the class (\<open>missions = []\<close>, \<open>lastReset = 0\<close>); the
  constructor, the only caller of \<open>loadProgress\<close>, calls it on them.\<close>

definition MissionManager_fields :: MissionManager where
  "MissionManager_fields = \<lparr> missions = [], lastReset = JNum 0 \<rparr>"

section \<open>GameOverScene: the high score (src/game/scenes/GameOverScene.ts)\<close>

text \<open>
  \<open>GameOverData\<close>.  The scenes that start the game-over scene pass any string as
  \<open>mode\<close>, and the endless runner leaves \<open>wave\<close> and \<open>enemiesKilled\<close> undefined and passes
  the distance run, a fraction, as \<open>score\<close>.
\<close>

record GameOverData =
  go_score :: real
  wave :: jsval
  enemiesKilled :: jsval
  mode :: string

text \<open>\<open>Number.prototype.toString\<close>: the decimal notation of the number, which is its
  JSON text.\<close>

definition Number_toString :: "real \<Rightarrow> blob" where
  "Number_toString r = JsonText (JNum r)"

text \<open>
  \<open>parseInt\<close> reads an optional sign and the leading decimal digits of a string, after
  leading white space, and gives \<open>NaN\<close> (here \<open>None\<close>) when there is no digit.
\<close>

definition is_digit :: "char \<Rightarrow> bool" where
  "is_digit c = (48 \<le> (of_char c :: nat) \<and> (of_char c :: nat) \<le> 57)"

definition is_space :: "char \<Rightarrow> bool" where
  "is_space c = ((of_char c :: nat) \<in> {9, 10, 11, 12, 13, 32})"

definition digits_value :: "string \<Rightarrow> nat" where
  "digits_value ds = foldl (\<lambda>n c. 10 * n + ((of_char c :: nat) - 48)) 0 ds"

definition parse_digits :: "string \<Rightarrow> int option" where
  "parse_digits s =
     (let ds = takeWhile is_digit s in if ds = [] then None else Some (int (digits_value ds)))"

definition is_hex_digit :: "char \<Rightarrow> bool" where
  "is_hex_digit c =
     (is_digit c \<or> (65 \<le> (of_char c :: nat) \<and> (of_char c :: nat) \<le> 70)
      \<or> (97 \<le> (of_char c :: nat) \<and> (of_char c :: nat) \<le> 102))"

definition hex_digit_value :: "char \<Rightarrow> nat" where
  "hex_digit_value c =
     (if is_digit c then of_char c - 48
      else if (of_char c :: nat) \<le> 70 then of_char c - 55 else of_char c - 87)"

definition parse_hex :: "string \<Rightarrow> int option" where
  "parse_hex s =
     (let ds = takeWhile is_hex_digit s
      in if ds = [] then None else Some (int (foldl (\<lambda>n c. 16 * n + hex_digit_value c) 0 ds)))"

text \<open>With no radix given, a prefix \<open>0x\<close> or \<open>0X\<close> selects base 16.\<close>

definition parse_magnitude :: "string \<Rightarrow> int option" where
  "parse_magnitude s =
     (if take 2 s = ''0x'' \<or> take 2 s = ''0X'' then parse_hex (drop 2 s) else parse_digits s)"

definition parseInt_string :: "string \<Rightarrow> int option" where
  "parseInt_string s =
     (case dropWhile is_space s of
        [] \<Rightarrow> None
      | c # cs \<Rightarrow>
          if c = CHR ''-'' then map_option uminus (parse_magnitude cs)
          else if c = CHR ''+'' then parse_magnitude cs
          else parse_magnitude (c # cs))"

text \<open>
  On the text of a number \<open>parseInt\<close> gives the integer part: the notation is the
  integer part, then a point and the fraction.  (Numbers of magnitude \<open>10\<^sup>2\<^sup>1\<close> and more, or
  below \<open>10\<^sup>-\<^sup>6\<close>, are written with an exponent, and \<open>parseInt\<close> then gives the leading
  digit.)  The text of any other JSON value starts with a letter, a quote or a
  bracket.
\<close>

definition integer_part :: "real \<Rightarrow> int" where
  "integer_part r = (if 0 \<le> r then \<lfloor>r\<rfloor> else \<lceil>r\<rceil>)"

definition leading_digit :: "real \<Rightarrow> int" where
  "leading_digit r = \<lfloor>\<bar>r\<bar> / 10 powr of_int \<lfloor>log 10 \<bar>r\<bar>\<rfloor>\<rfloor>"

fun parseInt :: "blob \<Rightarrow> int option" where
  "parseInt (RawText s) = parseInt_string s"
| "parseInt (JsonText (JNum r)) =
     (if r = 0 \<or> (1 / 10 ^ 6 \<le> \<bar>r\<bar> \<and> \<bar>r\<bar> < 10 ^ 21) then Some (integer_part r)
      else Some ((if r < 0 then - 1 else 1) * leading_digit r))"
| "parseInt (JsonText v) = None"

text \<open>\<open>score > currentHighScore\<close>, false when the right side is \<open>NaN\<close>.\<close>

definition greater_than :: "real \<Rightarrow> int option \<Rightarrow> bool" where
  "greater_than a b = (case b of None \<Rightarrow> False | Some n \<Rightarrow> a > of_int n)"

text \<open>\<open>localStorage.getItem(key) || '0'\<close>.\<close>

definition item_or_zero :: "localStorage \<Rightarrow> string \<Rightarrow> blob" where
  "item_or_zero ls k =
     (case getItem ls k of
        None \<Rightarrow> JsonText (JNum 0)
      | Some b \<Rightarrow> if truthy b then b else JsonText (JNum 0))"

text \<open>
  \<open>saveHighScore\<close>; \<open>today\<close> is \<open>new Date().toISOString()\<close>.  Nothing catches an exception
  of \<open>setItem\<close> here.
\<close>

definition saveHighScore :: "string \<Rightarrow> GameOverData \<Rightarrow> localStorage \<Rightarrow> js_error + localStorage" where
  "saveHighScore today gameData ls =
     (let highScoreKey = ''highScore_'' @ mode gameData;
          currentHighScore = parseInt (item_or_zero ls highScoreKey)
      in if greater_than (go_score gameData) currentHighScore then
           (case setItem ls highScoreKey (Number_toString (go_score gameData)) of
              Inl err \<Rightarrow> Inl err
            | Inr ls1 \<Rightarrow>
                setItem ls1 (''stats_'' @ mode gameData)
                  (JSON_stringify (JObj
                     [(''score'', JNum (go_score gameData)), (''wave'', wave gameData),
                      (''enemiesKilled'', enemiesKilled gameData), (''date'', JStr today)])))
         else Inr ls)"

section \<open>Properties of GameState\<close>

lemma apply_gs_op_hp_clamped:
  "hp_clamped d \<Longrightarrow> hp_safe op \<Longrightarrow> hp_clamped (apply_gs_op op d)"
  by (cases op)
     (auto simp: hp_clamped_def reset_def setData_def orElse_def updateScore_def setScore_def
        setLevel_def setPlayerHP_def setPlayerMaxHP_def setLastMode_def setPlayerPosition_def
        setEnemies_def setCurrentWeapon_def addItem_def removeItem_def setFlag_def Let_def)

lemma fold_gs_hp_clamped:
  "hp_clamped d \<Longrightarrow> list_all hp_safe ops \<Longrightarrow> hp_clamped (fold apply_gs_op ops d)"
  by (induction ops arbitrary: d) (auto simp: apply_gs_op_hp_clamped)

text \<open>
  C1, as stated, fails: \<open>setData\<close> merges its argument without clamping, so after
  \<open>reset()\<close> the call \<open>setData({playerHP: 500})\<close> leaves \<open>playerHP = 500\<close> above
  \<open>playerMaxHP = 100\<close>.
\<close>

theorem C1_setData_breaks_clamp:
  "\<not> hp_clamped (run_gs [Reset, SetData (no_patch\<lparr>p_playerHP := Some 500\<rparr>)])"
  by (simp add: run_gs_def hp_clamped_def setData_def orElse_def no_patch_def reset_def)

text \<open>
  C1, amended: starting from the state the constructor leaves, after every sequence of
  calls of the mutators (\<open>reset\<close>, \<open>setData\<close>, \<open>updateScore\<close>, \<open>setScore\<close>, \<open>setLevel\<close>,
  \<open>setPlayerHP\<close>, \<open>setPlayerMaxHP\<close>, the \<open>lastMode\<close> setter, \<open>setPlayerPosition\<close>,
  \<open>setEnemies\<close>, \<open>setCurrentWeapon\<close>, \<open>addItem\<close>, \<open>removeItem\<close>, \<open>setFlag\<close>) in which
  no \<open>setData\<close> carries a \<open>playerHP\<close> or \<open>playerMaxHP\<close> key and no \<open>setPlayerMaxHP\<close> gets
  a negative maximum, \<open>0 \<le> playerHP \<le> playerMaxHP\<close> holds (the arguments being finite
  numbers, as all numbers of the model are).
\<close>

theorem C1_hp_clamp_invariant:
  "list_all hp_safe ops \<Longrightarrow> hp_clamped (run_gs ops)"
  unfolding run_gs_def
  by (rule fold_gs_hp_clamped) (simp_all add: hp_clamped_def reset_def)

theorem C1_hp_clamp_invariant_witness:
  "list_all hp_safe
     [SetPlayerHP 250, SetPlayerMaxHP 40, SetData (no_patch\<lparr>p_score := Some 7\<rparr>),
      UpdateScore 10, SetPlayerHP (- 3)]
   \<and> hp_clamped (run_gs
     [SetPlayerHP 250, SetPlayerMaxHP 40, SetData (no_patch\<lparr>p_score := Some 7\<rparr>),
      UpdateScore 10, SetPlayerHP (- 3)])"
  using C1_hp_clamp_invariant
    [of "[SetPlayerHP 250, SetPlayerMaxHP 40, SetData (no_patch\<lparr>p_score := Some 7\<rparr>),
      UpdateScore 10, SetPlayerHP (- 3)]"]
  by (simp add: no_patch_def)

text \<open>\<open>setPlayerMaxHP\<close> caps the hit points from above only: a negative maximum leaves
  them negative.\<close>

lemma setPlayerMaxHP_negative:
  "playerHP (run_gs [SetPlayerMaxHP (- 5)]) = - 5"
  by (simp add: run_gs_def setPlayerMaxHP_def reset_def Let_def)

section \<open>Properties of the persistence of GameState\<close>

lemma to_json_clean:
  shows "json_clean v \<Longrightarrow> to_json v = v"
    and to_json_elems_clean: "json_clean_elems xs \<Longrightarrow> to_json_elems xs = xs"
    and to_json_props_clean: "json_clean_props kvs \<Longrightarrow> to_json_props kvs = kvs"
  by (induction v and xs and kvs rule: to_json_to_json_elems_to_json_props.induct) auto

lemma positions_clean: "json_clean_elems (map position_to_js es)"
  by (induction es) (simp_all add: position_to_js_def)

lemma weapon_clean: "json_clean (weapon_to_js w)"
  by (cases w) (simp_all add: weapon_to_js_def)

lemma data_to_js_clean: "storable d \<Longrightarrow> json_clean_props (data_to_js d)"
  by (simp add: storable_def data_to_js_def positions_clean weapon_clean)

lemma spread_data: "spread (data_to_js d0) (data_to_js d) = data_to_js d"
  by (simp add: spread_def data_to_js_def)

lemma position_to_js_inj: "map position_to_js es = map position_to_js es' \<Longrightarrow> es = es'"
proof (rule map_injective)
  show "inj position_to_js"
    by (rule injI) (simp add: position_to_js_def)
qed

lemma weapon_to_js_inj: "weapon_to_js w = weapon_to_js w' \<Longrightarrow> w = w'"
  by (cases w; cases w') (simp_all add: weapon_to_js_def)

lemma data_to_js_inj: "data_to_js d = data_to_js d' \<Longrightarrow> d = d'"
  by (cases d; cases d') (auto simp: data_to_js_def dest: position_to_js_inj weapon_to_js_inj)

text \<open>
  C5, as stated, fails for a state that JSON cannot represent.  After \<open>reset()\<close> and
  \<open>addItem('bonus', undefined)\<close> the inventory has the key \<open>bonus\<close>; \<open>saveToStorage\<close>
  succeeds, \<open>JSON.stringify\<close> leaves the property out, and \<open>loadFromStorage\<close> returns
  true and replaces the inventory by the stored, empty one: the state loaded is the
  state after \<open>reset()\<close>, not the state saved.
\<close>

theorem C5_undefined_item_is_lost:
  "writable \<lparr>items = Map.empty, writable = True\<rparr>
   \<and> loadFromStorage
        (saveToStorage \<lparr>items = Map.empty, writable = True\<rparr> (addItem ''bonus'' JUndefined reset))
        (addItem ''bonus'' JUndefined reset)
      = (True, data_to_js reset)
   \<and> data_to_js reset \<noteq> data_to_js (addItem ''bonus'' JUndefined reset)"
  by (simp add: saveToStorage_def loadFromStorage_def setItem_def getItem_def
        JSON_stringify_def addItem_def reset_def data_to_js_def spread_def weapon_to_js_def)

text \<open>
  C5, amended: for every state whose \<open>inventory\<close> and \<open>flags\<close> hold no \<open>undefined\<close>
  (the values JSON represents; the numbers of the model are the finite ones), if
  \<open>saveToStorage\<close> succeeds (\<open>setItem\<close> does not throw),
  the item under \<open>vc_game_state_v1\<close> is the JSON text of the state, and a subsequent
  \<open>loadFromStorage\<close>, on the same or on any other current state \<open>d0\<close>, returns true
  and makes \<open>this.data\<close> exactly the saved record.  (\<open>data_to_js\<close> is injective, lemma
  \<open>data_to_js_inj\<close>: the object determines every field of the record.)
\<close>

theorem C5_save_load:
  assumes "storable d" and "writable ls"
  shows "getItem (saveToStorage ls d) game_state_key = Some (JSON_stringify (JObj (data_to_js d)))
    \<and> loadFromStorage (saveToStorage ls d) d0 = (True, data_to_js d)"
proof -
  from assms(1) have "to_json_props (data_to_js d) = data_to_js d"
    by (intro to_json_props_clean data_to_js_clean)
  then show ?thesis
    using assms(2)
    by (simp add: saveToStorage_def loadFromStorage_def setItem_def getItem_def
        JSON_stringify_def spread_data)
qed

theorem C5_save_load_witness:
  "storable (addItem ''coins'' (JNum 12) (setScore 250 reset))
   \<and> writable \<lparr>items = Map.empty, writable = True\<rparr>
   \<and> loadFromStorage
        (saveToStorage \<lparr>items = Map.empty, writable = True\<rparr>
           (addItem ''coins'' (JNum 12) (setScore 250 reset)))
        reset
      = (True, data_to_js (addItem ''coins'' (JNum 12) (setScore 250 reset)))"
  using C5_save_load
    [of "addItem ''coins'' (JNum 12) (setScore 250 reset)"
        "\<lparr>items = Map.empty, writable = True\<rparr>" reset]
  by (simp add: storable_def addItem_def setScore_def reset_def)

section \<open>Properties of Player\<close>

lemma js_rem_nonneg: "0 \<le> a \<Longrightarrow> 0 < b \<Longrightarrow> js_rem a b = a mod b"
  by (cases "a = 0") (simp_all add: js_rem_def)

lemma weapons_length: "length weapons = 3"
  by (simp add: weapons_def)

lemma new_Player_eq: "new_Player = Inr Player_fields"
  by (simp add: new_Player_def updateWeaponStats_def weapon_at_def Player_fields_def weapons_def)

subsection \<open>Power-up effects are one per type\<close>

lemma distinct_keys_at_most_one:
  "distinct (map fst xs) \<Longrightarrow> length (filter (\<lambda>entry. fst entry = t) xs) \<le> Suc 0"
proof (induction xs)
  case Nil
  then show ?case by simp
next
  case (Cons x xs)
  show ?case
  proof (cases "fst x = t")
    case True
    with Cons.prems have "t \<notin> fst ` set xs" by auto
    then have "filter (\<lambda>entry. fst entry = t) xs = []"
      by (auto simp: filter_empty_conv)
    with True show ?thesis by simp
  next
    case False
    with Cons show ?thesis by simp
  qed
qed

lemma recalculateStats_powerups [simp]:
  "activePowerUps (fst (recalculateStats p)) = activePowerUps p"
  by (simp add: recalculateStats_def Let_def)

lemma applyPowerUp_distinct:
  "distinct (map fst (activePowerUps p)) \<Longrightarrow>
   distinct (map fst (activePowerUps (fst (applyPowerUp t m d p))))"
  by (simp add: applyPowerUp_def distinct_update split: option.splits)

lemma removePowerUp_distinct:
  "distinct (map fst (activePowerUps p)) \<Longrightarrow>
   distinct (map fst (activePowerUps (removePowerUp t p)))"
  by (simp add: removePowerUp_def distinct_delete split: option.splits)

lemma tick_effect_distinct:
  "distinct (map fst (activePowerUps (fst pr))) \<Longrightarrow>
   distinct (map fst (activePowerUps (fst (tick_effect delta t pr))))"
  by (simp add: tick_effect_def Let_def distinct_update removePowerUp_distinct split: option.splits)

lemma fold_tick_effect_distinct:
  "distinct (map fst (activePowerUps (fst pr))) \<Longrightarrow>
   distinct (map fst (activePowerUps (fst (fold (tick_effect delta) ts pr))))"
  by (induction ts arbitrary: pr) (simp_all add: tick_effect_distinct)

lemma updatePowerUps_distinct:
  "distinct (map fst (activePowerUps p)) \<Longrightarrow>
   distinct (map fst (activePowerUps (fst (updatePowerUps delta p))))"
  by (simp add: updatePowerUps_def Let_def fold_tick_effect_distinct)

lemma player_step_distinct:
  "distinct (map fst (activePowerUps p)) \<Longrightarrow> player_step e p = Inr p1 \<Longrightarrow>
   distinct (map fst (activePowerUps p1))"
  by (cases e)
     (auto simp: applyPowerUp_distinct updatePowerUps_distinct switchWeapon_def
        updateWeaponStats_def shoot_def Let_def split: sum.splits if_splits)

lemma player_run_distinct:
  "distinct (map fst (activePowerUps p)) \<Longrightarrow> player_run es p = Inr p1 \<Longrightarrow>
   distinct (map fst (activePowerUps p1))"
proof (induction es arbitrary: p)
  case Nil
  then show ?case by simp
next
  case (Cons e es)
  then show ?case
    by (auto split: sum.splits dest: player_step_distinct)
qed

text \<open>
  C4: when \<open>applyPowerUp\<close> is called for a type \<open>t\<close> that already has an effect \<open>e\<close>,
  the entry of \<open>t\<close> is overwritten in place by \<open>e\<close> with its multiplier set to the
  maximum of the old and the new one and its remaining time (and duration) set to the
  new duration; the keys of the map are the same as before, so no second effect is
  added.  And after the constructor and any sequence of calls (\<open>applyPowerUp\<close>,
  \<open>updatePowerUps\<close>, \<open>switchWeapon\<close>, \<open>shoot\<close>) there is at most one active effect of each
  type.
\<close>

theorem C4_applyPowerUp_same_type:
  "(map_of (activePowerUps p) t = Some e \<longrightarrow>
      activePowerUps (fst (applyPowerUp t m d p)) =
        AList.update t (e\<lparr>multiplier := max (multiplier e) m, remainingTime := d, duration := d\<rparr>)
          (activePowerUps p)
      \<and> map fst (activePowerUps (fst (applyPowerUp t m d p))) = map fst (activePowerUps p)
      \<and> map_of (activePowerUps (fst (applyPowerUp t m d p))) t =
          Some (e\<lparr>multiplier := max (multiplier e) m, remainingTime := d, duration := d\<rparr>))
   \<and> (player_after es = Inr p1 \<longrightarrow> length (effects_of_type t p1) \<le> 1)"
proof (intro conjI impI)
  assume ex: "map_of (activePowerUps p) t = Some e"
  then show "activePowerUps (fst (applyPowerUp t m d p)) =
        AList.update t (e\<lparr>multiplier := max (multiplier e) m, remainingTime := d, duration := d\<rparr>)
          (activePowerUps p)"
    by (simp add: applyPowerUp_def)
  from ex have "t \<in> fst ` set (activePowerUps p)"
    by (metis map_of_eq_None_iff option.distinct(1))
  then show "map fst (activePowerUps (fst (applyPowerUp t m d p))) = map fst (activePowerUps p)"
    using ex by (simp add: applyPowerUp_def update_keys)
  show "map_of (activePowerUps (fst (applyPowerUp t m d p))) t =
          Some (e\<lparr>multiplier := max (multiplier e) m, remainingTime := d, duration := d\<rparr>)"
    using ex by (simp add: applyPowerUp_def update_conv')
next
  assume "player_after es = Inr p1"
  then have "player_run es Player_fields = Inr p1"
    by (simp add: player_after_def new_Player_eq)
  then have "distinct (map fst (activePowerUps p1))"
    by (rule player_run_distinct [rotated]) (simp add: Player_fields_def)
  then show "length (effects_of_type t p1) \<le> 1"
    unfolding effects_of_type_def using distinct_keys_at_most_one by fastforce
qed

theorem C4_applyPowerUp_same_type_witness:
  "map_of [(SPEED_BOOST, \<lparr> multiplier = 1.15, duration = 8000, remainingTime = 2500,
              timerBar = True \<rparr>)] SPEED_BOOST
     = Some \<lparr> multiplier = 1.15, duration = 8000, remainingTime = 2500, timerBar = True \<rparr>
   \<and> activePowerUps (fst (applyPowerUp SPEED_BOOST 1.1 5000
        (Player_fields\<lparr>activePowerUps :=
           [(SPEED_BOOST, \<lparr> multiplier = 1.15, duration = 8000, remainingTime = 2500,
              timerBar = True \<rparr>)]\<rparr>)))
     = [(SPEED_BOOST, \<lparr> multiplier = 1.15, duration = 5000, remainingTime = 5000,
          timerBar = True \<rparr>)]
   \<and> player_after [ApplyPowerUp SPEED_BOOST 1.15 8000, ApplyPowerUp SPEED_BOOST 1.1 5000]
     = Inr (Player_fields\<lparr>moveSpeed := 230, activePowerUps :=
         [(SPEED_BOOST, \<lparr> multiplier = 1.15, duration = 5000, remainingTime = 5000,
            timerBar = True \<rparr>)]\<rparr>)
   \<and> length (effects_of_type SPEED_BOOST (Player_fields\<lparr>moveSpeed := 230, activePowerUps :=
         [(SPEED_BOOST, \<lparr> multiplier = 1.15, duration = 5000, remainingTime = 5000,
            timerBar = True \<rparr>)]\<rparr>)) \<le> 1"
proof -
  have run: "player_after [ApplyPowerUp SPEED_BOOST 1.15 8000, ApplyPowerUp SPEED_BOOST 1.1 5000]
     = Inr (Player_fields\<lparr>moveSpeed := 230, activePowerUps :=
         [(SPEED_BOOST, \<lparr> multiplier = 1.15, duration = 5000, remainingTime = 5000,
            timerBar = True \<rparr>)]\<rparr>)"
    by (simp add: player_after_def new_Player_eq applyPowerUp_def recalculateStats_def
        capped_def stacked_def Let_def Player_fields_def PLAYER_SPEED_def)
  show ?thesis
    using run C4_applyPowerUp_same_type
      [where p = "Player_fields\<lparr>activePowerUps :=
           [(SPEED_BOOST, \<lparr> multiplier = 1.15, duration = 8000, remainingTime = 2500,
              timerBar = True \<rparr>)]\<rparr>"
         and t = SPEED_BOOST
         and e = "\<lparr> multiplier = 1.15, duration = 8000, remainingTime = 2500, timerBar = True \<rparr>"
         and m = "1.1" and d = 5000
         and es = "[ApplyPowerUp SPEED_BOOST 1.15 8000, ApplyPowerUp SPEED_BOOST 1.1 5000]"
         and ?p1.0 = "Player_fields\<lparr>moveSpeed := 230, activePowerUps :=
         [(SPEED_BOOST, \<lparr> multiplier = 1.15, duration = 5000, remainingTime = 5000,
            timerBar = True \<rparr>)]\<rparr>"]
    by simp
qed

subsection \<open>Weapon switching\<close>

text \<open>
  C9: for a weapon index in the table (0, 1 or 2) and a direction of -1 or +1,
  \<open>switchWeapon\<close> does not throw, sets the index to (old + direction) mod 3, which is an
  index into the table of three weapons, and sets \<open>maxAmmo\<close> and \<open>currentAmmo\<close> to the
  ammo capacity of the new weapon; switching back with the opposite direction gives the
  old index again, with the full ammo of that weapon.
\<close>

theorem C9_switchWeapon:
  assumes "currentWeapon p \<in> {0, 1, 2}" and "direction \<in> {- 1, 1}"
  shows "switchWeapon direction p =
           Inr (p\<lparr>currentWeapon := (currentWeapon p + direction) mod 3,
                  maxAmmo := w_ammo (weapons ! nat ((currentWeapon p + direction) mod 3)),
                  currentAmmo := w_ammo (weapons ! nat ((currentWeapon p + direction) mod 3))\<rparr>)
         \<and> 0 \<le> (currentWeapon p + direction) mod 3
         \<and> (currentWeapon p + direction) mod 3 < int (length weapons)
         \<and> (case switchWeapon direction p of
               Inl e \<Rightarrow> False
             | Inr p1 \<Rightarrow>
                (case switchWeapon (- direction) p1 of
                   Inl e \<Rightarrow> False
                 | Inr p2 \<Rightarrow> currentWeapon p2 = currentWeapon p
                     \<and> currentAmmo p2 = w_ammo (weapons ! nat (currentWeapon p))
                     \<and> maxAmmo p2 = w_ammo (weapons ! nat (currentWeapon p))))"
  using assms
  by (auto simp: switchWeapon_def updateWeaponStats_def weapon_at_def weapons_length
      js_rem_nonneg Let_def)

theorem C9_switchWeapon_witness:
  "switchWeapon 1 (Player_fields\<lparr>currentWeapon := 2, maxAmmo := 10, currentAmmo := 4\<rparr>)
     = Inr (Player_fields\<lparr>currentWeapon := 0, maxAmmo := - 1, currentAmmo := - 1\<rparr>)
   \<and> switchWeapon (- 1) (Player_fields\<lparr>currentWeapon := 0, maxAmmo := - 1, currentAmmo := - 1\<rparr>)
     = Inr (Player_fields\<lparr>currentWeapon := 2, maxAmmo := 10, currentAmmo := 10\<rparr>)"
  using C9_switchWeapon
    [of "Player_fields\<lparr>currentWeapon := 2, maxAmmo := 10, currentAmmo := 4\<rparr>" 1]
    C9_switchWeapon
    [of "Player_fields\<lparr>currentWeapon := 0, maxAmmo := - 1, currentAmmo := - 1\<rparr>" "- 1"]
  by (simp add: weapons_def Player_fields_def)

text \<open>The loop of \<open>updatePowerUps\<close> writes \<open>activePowerUps\<close> and nothing else.\<close>

lemma tick_effect_frame:
  "\<exists>xs. fst (tick_effect delta t pr) = (fst pr)\<lparr>activePowerUps := xs\<rparr>"
  by (cases "map_of (activePowerUps (fst pr)) t")
     (auto simp: tick_effect_def removePowerUp_def Let_def update_conv' intro: exI [of _ "activePowerUps (fst pr)"])

lemma fold_tick_effect_frame:
  "\<exists>xs. fst (fold (tick_effect delta) ts pr) = (fst pr)\<lparr>activePowerUps := xs\<rparr>"
proof (induction ts arbitrary: pr)
  case Nil
  show ?case by (auto intro: exI [of _ "activePowerUps (fst pr)"])
next
  case (Cons t ts)
  obtain xs where "fst (tick_effect delta t pr) = (fst pr)\<lparr>activePowerUps := xs\<rparr>"
    using tick_effect_frame by blast
  moreover obtain ys where "fst (fold (tick_effect delta) ts (tick_effect delta t pr))
      = (fst (tick_effect delta t pr))\<lparr>activePowerUps := ys\<rparr>"
    using Cons.IH by blast
  ultimately show ?case by auto
qed

lemma updatePowerUps_index: "currentWeapon (fst (updatePowerUps delta p)) = currentWeapon p"
proof -
  obtain xs where "fst (fold (tick_effect delta) (map fst (activePowerUps p)) (p, False))
      = p\<lparr>activePowerUps := xs\<rparr>"
    using fold_tick_effect_frame [of delta "map fst (activePowerUps p)" "(p, False)"] by auto
  then show ?thesis
    by (simp add: updatePowerUps_def recalculateStats_def Let_def)
qed

text \<open>The index stays in the table, and no call throws, as long as the weapon is
  switched one step at a time.\<close>

lemma player_step_index:
  "unit_switch e \<Longrightarrow> currentWeapon p \<in> {0, 1, 2} \<Longrightarrow>
   \<exists>p1. player_step e p = Inr p1 \<and> currentWeapon p1 \<in> {0, 1, 2}"
  by (cases e)
     (auto simp: applyPowerUp_def recalculateStats_def updatePowerUps_index
        switchWeapon_def updateWeaponStats_def shoot_def weapon_at_def weapons_def Let_def
        js_rem_nonneg split: option.splits sum.splits if_splits)

lemma player_run_index:
  "list_all unit_switch es \<Longrightarrow> currentWeapon p \<in> {0, 1, 2} \<Longrightarrow>
   \<exists>p1. player_run es p = Inr p1 \<and> currentWeapon p1 \<in> {0, 1, 2}"
proof (induction es arbitrary: p)
  case Nil
  then show ?case by simp
next
  case (Cons e es)
  then obtain p1 where "player_step e p = Inr p1" and "currentWeapon p1 \<in> {0, 1, 2}"
    using player_step_index [of e p] by auto
  with Cons show ?case by simp
qed

subsection \<open>Power-up multipliers and the combat stats\<close>

lemma recalculateStats_caps:
  "ev_damageMultiplier (snd (recalculateStats p)) \<le> 2
   \<and> ev_speedMultiplier (snd (recalculateStats p)) + 1 \<le> 1.5
   \<and> ev_fireRateMultiplier (snd (recalculateStats p)) \<le> 2"
  by (simp add: recalculateStats_def capped_def Let_def)

lemma recalculateStats_moveSpeed:
  "0 \<le> baseMoveSpeed p \<Longrightarrow> moveSpeed (fst (recalculateStats p)) \<le> 1.5 * baseMoveSpeed p"
proof -
  assume base: "0 \<le> baseMoveSpeed p"
  have "min (speedMultiplier (stacked p)) 1.5 \<le> 1.5"
    by simp
  with base have "baseMoveSpeed p * min (speedMultiplier (stacked p)) 1.5 \<le> baseMoveSpeed p * 1.5"
    by (rule mult_left_mono [rotated])
  then show ?thesis
    by (simp add: recalculateStats_def capped_def Let_def)
qed

lemma recalculateStats_base:
  "baseDamageMultiplier (fst (recalculateStats p)) = baseDamageMultiplier p
   \<and> baseFireRateMultiplier (fst (recalculateStats p)) = baseFireRateMultiplier p"
  by (simp add: recalculateStats_def Let_def)

lemma shoot_ignores_powerups:
  "map_sum id snd (shoot now (p\<lparr>activePowerUps := effects\<rparr>)) = map_sum id snd (shoot now p)"
  by (simp add: shoot_def split: sum.splits)

text \<open>No method writes the two base multipliers that \<open>shoot\<close> reads: they are 1 from
  the constructor on, and a shot has the damage of the weapon, boost or no boost.\<close>

lemma removePowerUp_base:
  "baseDamageMultiplier (removePowerUp t p) = baseDamageMultiplier p
   \<and> baseFireRateMultiplier (removePowerUp t p) = baseFireRateMultiplier p"
  by (simp add: removePowerUp_def split: option.splits)

lemma tick_effect_base:
  "baseDamageMultiplier (fst (tick_effect delta t pr)) = baseDamageMultiplier (fst pr)
   \<and> baseFireRateMultiplier (fst (tick_effect delta t pr)) = baseFireRateMultiplier (fst pr)"
  by (simp add: tick_effect_def Let_def removePowerUp_base split: option.splits)

lemma fold_tick_effect_base:
  "baseDamageMultiplier (fst (fold (tick_effect delta) ts pr)) = baseDamageMultiplier (fst pr)
   \<and> baseFireRateMultiplier (fst (fold (tick_effect delta) ts pr)) = baseFireRateMultiplier (fst pr)"
  by (induction ts arbitrary: pr) (simp_all add: tick_effect_base)

lemma player_step_base:
  "player_step e p = Inr p1 \<Longrightarrow>
   baseDamageMultiplier p1 = baseDamageMultiplier p
   \<and> baseFireRateMultiplier p1 = baseFireRateMultiplier p"
  by (cases e)
     (auto simp: applyPowerUp_def recalculateStats_def updatePowerUps_def fold_tick_effect_base
        switchWeapon_def updateWeaponStats_def shoot_def Let_def
        split: option.splits sum.splits if_splits)

lemma player_run_base:
  "player_run es p = Inr p1 \<Longrightarrow>
   baseDamageMultiplier p1 = baseDamageMultiplier p
   \<and> baseFireRateMultiplier p1 = baseFireRateMultiplier p"
proof (induction es arbitrary: p)
  case Nil
  then show ?case by simp
next
  case (Cons e es)
  then show ?case
    by (auto split: sum.splits dest!: player_step_base)
qed

lemma player_after_base:
  "player_after es = Inr p \<Longrightarrow> baseDamageMultiplier p = 1 \<and> baseFireRateMultiplier p = 1"
  by (auto simp: player_after_def new_Player_def updateWeaponStats_def Player_fields_def
      weapon_at_def weapons_def dest!: player_run_base split: sum.splits)

lemma shoot_damage_unboosted:
  "player_after es = Inr p \<Longrightarrow> shoot now p = Inr (p1, Some shot) \<Longrightarrow>
   weapon_at (currentWeapon p) = Inr w \<Longrightarrow> proj_damage shot = of_int \<lfloor>w_damage w\<rfloor>"
  by (auto simp: shoot_def dest!: player_after_base split: if_splits)

text \<open>
  C2 at a concrete input: a new player picks up a damage boost of 1.5 for 10 s.
  \<open>recalculateStats\<close> reports the capped damage multiplier 1.5 in its event, but the shot
  fired afterwards with the Pea Shooter (damage 10) has damage 10, not 15: \<open>shoot\<close> reads
  \<open>baseDamageMultiplier\<close> and \<open>baseFireRateMultiplier\<close>, which \<open>recalculateStats\<close> never
  writes.
\<close>

theorem C2_shoot_ignores_damage_boost:
  "ev_damageMultiplier (snd (applyPowerUp DAMAGE_BOOST 1.5 10000 Player_fields)) = 1.5
   \<and> map_sum id (map_option proj_damage \<circ> snd)
        (shoot 1000 (fst (applyPowerUp DAMAGE_BOOST 1.5 10000 Player_fields))) = Inr (Some 10)"
  by (simp add: applyPowerUp_def Player_fields_def recalculateStats_def capped_def stacked_def
      shoot_def weapon_at_def weapons_def PLAYER_SPEED_def Let_def)

section \<open>Properties of Enemy\<close>













section \<open>Properties of Settings\<close>

lemma map_of_fold_update:
  "map_of (fold (\<lambda>(k, v). AList.update k v) b a) = map_of a ++ map_of (rev b)"
proof (induction b arbitrary: a)
  case Nil
  then show ?case by simp
next
  case (Cons kv b)
  obtain k v where kv: "kv = (k, v)" by (cases kv)
  have "map_of (fold (\<lambda>(k, v). AList.update k v) (kv # b) a)
      = map_of (AList.update k v a) ++ map_of (rev b)"
    by (simp add: kv Cons.IH)
  also have "\<dots> = map_of a ++ map_of (rev (kv # b))"
    by (simp add: kv update_conv' map_add_def fun_eq_iff split: option.splits)
  finally show ?case .
qed

lemma map_of_spread: "map_of (spread a b) = map_of a ++ map_of (rev b)"
  by (simp add: spread_def map_of_fold_update)

lemma spread_missing: "k \<notin> fst ` set b \<Longrightarrow> map_of (spread a b) k = map_of a k"
  by (simp add: map_of_spread map_add_def map_of_eq_None_iff [THEN iffD2] split: option.splits)

lemma spread_present: "k \<in> fst ` set b \<Longrightarrow> map_of (spread a b) k = map_of (rev b) k"
proof -
  assume "k \<in> fst ` set b"
  then have "map_of (rev b) k \<noteq> None"
    by (simp add: map_of_eq_None_iff)
  then show ?thesis
    by (auto simp: map_of_spread map_add_def split: option.splits)
qed

text \<open>
  C6: \<open>loadSettings\<close> runs in the constructor, on the default settings.  When no blob
  is stored it leaves the settings as they are, so the new \<open>Settings\<close> has the defaults.
  When the stored blob fails to parse, the settings are the defaults (set by the
  \<open>catch\<close> block for a non-empty blob, left untouched for the empty string, which is
  falsy and is not parsed at all).  When it parses, the settings are the spread
  \<open>{...defaults, ...parsed}\<close>: every key that the stored value does not have keeps its
  default, and every key it has takes the stored value.
\<close>

theorem C6_loadSettings:
  "(getItem ls STORAGE_KEY = None \<longrightarrow>
      loadSettings ls settings = settings \<and> new_Settings ls = getDefaultSettings)
   \<and> (getItem ls STORAGE_KEY = Some saved \<and> JSON_parse saved = Inl err \<longrightarrow>
      new_Settings ls = getDefaultSettings
      \<and> (truthy saved \<longrightarrow> loadSettings ls settings = getDefaultSettings))
   \<and> (getItem ls STORAGE_KEY = Some saved \<and> JSON_parse saved = Inr parsed \<longrightarrow>
      loadSettings ls settings = spread getDefaultSettings (own_props parsed)
      \<and> (\<forall>k. k \<notin> fst ` set (own_props parsed) \<longrightarrow>
            map_of (loadSettings ls settings) k = map_of getDefaultSettings k)
      \<and> (\<forall>k. k \<in> fst ` set (own_props parsed) \<longrightarrow>
            map_of (loadSettings ls settings) k = map_of (rev (own_props parsed)) k))"
proof (intro conjI impI allI)
  assume "getItem ls STORAGE_KEY = None"
  then show "loadSettings ls settings = settings" and "new_Settings ls = getDefaultSettings"
    by (simp_all add: loadSettings_def new_Settings_def)
next
  assume a: "getItem ls STORAGE_KEY = Some saved \<and> JSON_parse saved = Inl err"
  then show "new_Settings ls = getDefaultSettings"
    by (simp add: loadSettings_def new_Settings_def)
  assume "truthy saved"
  with a show "loadSettings ls settings = getDefaultSettings"
    by (simp add: loadSettings_def)
next
  assume a: "getItem ls STORAGE_KEY = Some saved \<and> JSON_parse saved = Inr parsed"
  then have t: "truthy saved"
    by (cases saved) simp_all
  with a show eq: "loadSettings ls settings = spread getDefaultSettings (own_props parsed)"
    by (simp add: loadSettings_def)
  fix k
  {
    assume "k \<notin> fst ` set (own_props parsed)"
    then show "map_of (loadSettings ls settings) k = map_of getDefaultSettings k"
      unfolding eq by (rule spread_missing)
  }
  {
    assume "k \<in> fst ` set (own_props parsed)"
    then show "map_of (loadSettings ls settings) k = map_of (rev (own_props parsed)) k"
      unfolding eq by (rule spread_present)
  }
qed

theorem C6_loadSettings_witness:
  "new_Settings \<lparr>items = Map.empty, writable = True\<rparr> = getDefaultSettings
   \<and> new_Settings \<lparr>items = [STORAGE_KEY \<mapsto> RawText ''{not json''], writable = True\<rparr>
       = getDefaultSettings
   \<and> map_of (loadSettings
         \<lparr>items = [STORAGE_KEY \<mapsto> JsonText (JObj [(''masterVolume'', JNum 0.2)])],
            writable = True\<rparr> []) ''masterVolume'' = Some (JNum 0.2)
   \<and> map_of (loadSettings
         \<lparr>items = [STORAGE_KEY \<mapsto> JsonText (JObj [(''masterVolume'', JNum 0.2)])],
            writable = True\<rparr> []) ''sfxVolume'' = Some (JNum 0.8)"
  using C6_loadSettings
      [where ls = "\<lparr>items = Map.empty, writable = True\<rparr>" and settings = "[]"
         and saved = "RawText []" and err = SyntaxError and parsed = JNull]
    C6_loadSettings
      [where ls = "\<lparr>items = [STORAGE_KEY \<mapsto> RawText ''{not json''], writable = True\<rparr>"
         and settings = "[]" and saved = "RawText ''{not json''" and err = SyntaxError
         and parsed = JNull]
    C6_loadSettings
      [where ls = "\<lparr>items = [STORAGE_KEY \<mapsto> JsonText (JObj [(''masterVolume'', JNum 0.2)])],
            writable = True\<rparr>"
         and settings = "[]" and saved = "JsonText (JObj [(''masterVolume'', JNum 0.2)])"
         and err = SyntaxError and parsed = "JObj [(''masterVolume'', JNum 0.2)]"]
  by (simp add: getItem_def getDefaultSettings_def spread_def)

section \<open>Properties of rebindKey\<close>

text \<open>
  C10 at two concrete inputs.  On the default settings \<open>rebindKey('', 'Z')\<close> returns true
  and binds \<open>Z\<close> to the action with the empty name.  \<open>Z\<close> is now bound to an action other
  than \<open>dash\<close>, yet \<open>rebindKey('dash', 'Z')\<close> returns true and changes the bindings: the
  action found is the empty string, which the test \<open>existingAction && \<dots>\<close> takes for none.
  And when the stored settings bind \<open>W\<close> to \<open>moveUp\<close> and to \<open>moveDown\<close>, on the settings
  loaded from them \<open>rebindKey('moveUp', 'W')\<close> returns true although \<open>W\<close> is bound to the
  other action \<open>moveDown\<close>: \<open>find\<close> stops at the first action bound to the key.
\<close>

theorem C10_rebindKey_binds_a_key_twice:
  "(let ls0 = \<lparr> items = Map.empty, writable = True \<rparr>;
        kb1 = defaultKeyBindings @ [([], JStr ''Z'')];
        s1 = AList.update ''keyBindings'' (JObj kb1) getDefaultSettings;
        ls1 = saveSettings ls0 s1;
        s2 = AList.update ''keyBindings'' (JObj (AList.update ''dash'' (JStr ''Z'') kb1)) s1
    in rebindKey [] ''Z'' getDefaultSettings ls0 = Some (True, s1, ls1)
       \<and> bound_elsewhere kb1 ''dash'' ''Z''
       \<and> rebindKey ''dash'' ''Z'' s1 ls1 = Some (True, s2, saveSettings ls1 s2)
       \<and> s2 \<noteq> s1)
   \<and> (let kb = [(''moveUp'', JStr ''W''), (''moveDown'', JStr ''W'')];
            ls = \<lparr> items = [STORAGE_KEY \<mapsto> JsonText (JObj [(''keyBindings'', JObj kb)])],
                   writable = True \<rparr>
        in map_of (new_Settings ls) ''keyBindings'' = Some (JObj kb)
           \<and> bound_elsewhere kb ''moveUp'' ''W''
           \<and> rebindKey ''moveUp'' ''W'' (new_Settings ls) ls
               = Some (True, new_Settings ls, saveSettings ls (new_Settings ls)))"
  by (simp add: rebindKey_def getDefaultSettings_def defaultKeyBindings_def existingAction_def
      bound_elsewhere_def Let_def new_Settings_def loadSettings_def getItem_def spread_def)

text \<open>
  What the claim says does hold for bindings in which no action has the empty name and
  no key is bound to two actions.
\<close>

lemma find_keys_Some:
  "find P xs = Some a \<Longrightarrow> a \<in> set xs \<and> P a"
  by (induction xs) (auto split: if_splits)

lemma rebindKey_wellformed:
  assumes kb: "map_of settings ''keyBindings'' = Some (JObj kb)"
    and names: "[] \<notin> fst ` set kb"
    and once: "\<And>a b. map_of kb a = Some (JStr newKey) \<Longrightarrow> map_of kb b = Some (JStr newKey) \<Longrightarrow> a = b"
  shows "rebindKey action newKey settings ls =
    (if bound_elsewhere kb action newKey then Some (False, settings, ls)
     else (let settings1 = AList.update ''keyBindings''
                 (JObj (AList.update action (JStr newKey) kb)) settings
           in Some (True, settings1, saveSettings ls settings1)))"
proof (cases "existingAction kb newKey")
  case None
  then have "\<not> bound_elsewhere kb action newKey"
    by (auto simp: existingAction_def bound_elsewhere_def find_None_iff list_ex_iff)
  with None kb show ?thesis
    by (simp add: rebindKey_def)
next
  case (Some act)
  then have act: "act \<in> fst ` set kb" "map_of kb act = Some (JStr newKey)"
    using find_keys_Some [of _ "map fst kb" act] by (auto simp: existingAction_def)
  with names have nonempty: "act \<noteq> []" by force
  have "bound_elsewhere kb action newKey \<longleftrightarrow> act \<noteq> action"
  proof
    assume "bound_elsewhere kb action newKey"
    then obtain b where "b \<noteq> action" "map_of kb b = Some (JStr newKey)"
      by (auto simp: bound_elsewhere_def list_ex_iff)
    with once act(2) show "act \<noteq> action" by blast
  next
    assume "act \<noteq> action"
    with act show "bound_elsewhere kb action newKey"
      by (auto simp: bound_elsewhere_def list_ex_iff)
  qed
  with Some kb nonempty show ?thesis
    by (simp add: rebindKey_def)
qed

section \<open>Properties of MissionManager\<close>

text \<open>
  C7: when no blob is stored, \<open>loadProgress\<close> sets \<open>lastReset\<close> to 0 and leaves the
  missions as they are.  When the stored blob fails to parse, the constructor (the
  only caller, on the field initialisers) ends with no missions and \<open>lastReset = 0\<close>;
  for a non-empty blob this is what the \<open>catch\<close> block sets, whatever the fields were.
\<close>

theorem C7_loadProgress:
  "(getItem ls missions_key = None \<longrightarrow>
      loadProgress ToNumber now ls m = m\<lparr>lastReset := JNum 0\<rparr>)
   \<and> (getItem ls missions_key = Some saved \<and> JSON_parse saved = Inl err \<longrightarrow>
      loadProgress ToNumber now ls MissionManager_fields = \<lparr> missions = [], lastReset = JNum 0 \<rparr>
      \<and> (truthy saved \<longrightarrow>
           loadProgress ToNumber now ls m = \<lparr> missions = [], lastReset = JNum 0 \<rparr>))"
  by (auto simp: loadProgress_def load_saved_def MissionManager_fields_def)

theorem C7_loadProgress_witness:
  "loadProgress (\<lambda>v. None) 0 \<lparr>items = Map.empty, writable = True\<rparr>
       \<lparr> missions = [JNull], lastReset = JNum 5 \<rparr>
     = \<lparr> missions = [JNull], lastReset = JNum 0 \<rparr>
   \<and> loadProgress (\<lambda>v. None) 0
       \<lparr>items = [missions_key \<mapsto> RawText ''{not json''], writable = True\<rparr>
       \<lparr> missions = [JNull], lastReset = JNum 5 \<rparr>
     = \<lparr> missions = [], lastReset = JNum 0 \<rparr>"
  using C7_loadProgress
      [where ls = "\<lparr>items = Map.empty, writable = True\<rparr>"
         and m = "\<lparr> missions = [JNull], lastReset = JNum 5 \<rparr>"
         and ToNumber = "\<lambda>v. None" and now = 0 and saved = "RawText []" and err = SyntaxError]
    C7_loadProgress
      [where ls = "\<lparr>items = [missions_key \<mapsto> RawText ''{not json''], writable = True\<rparr>"
         and m = "\<lparr> missions = [JNull], lastReset = JNum 5 \<rparr>"
         and ToNumber = "\<lambda>v. None" and now = 0 and saved = "RawText ''{not json''"
         and err = SyntaxError]
  by (simp add: getItem_def)

section \<open>Properties of the high score\<close>

lemma parseInt_105: "parseInt (Number_toString 10.5) = Some 10"
  by (simp add: Number_toString_def integer_part_def)

text \<open>
  C8 at two concrete inputs.  The endless runner ends with the distance run as the
  score.  With \<open>10.5\<close> stored under \<open>highScore_endless\<close> and a new score of \<open>10.2\<close>,
  \<open>parseInt\<close> reads the stored text as 10, the new score is greater, and the stored high
  score is overwritten by the smaller \<open>10.2\<close>.  And a stored text without a leading digit
  is read as \<open>NaN\<close>, not as 0: no score is greater, and local storage stays as it is.
\<close>

theorem C8_high_score_decreases:
  "(case saveHighScore ''2025-01-01T00:00:00.000Z''
           \<lparr> go_score = 10.2, wave = JUndefined, enemiesKilled = JUndefined, mode = ''endless'' \<rparr>
           \<lparr> items = [''highScore_endless'' \<mapsto> Number_toString 10.5], writable = True \<rparr> of
      Inl err \<Rightarrow> None
    | Inr ls \<Rightarrow> getItem ls ''highScore_endless'') = Some (Number_toString 10.2)
   \<and> saveHighScore ''2025-01-01T00:00:00.000Z''
           \<lparr> go_score = 10, wave = JNum 3, enemiesKilled = JNum 7, mode = ''survival'' \<rparr>
           \<lparr> items = [''highScore_survival'' \<mapsto> RawText ''abc''], writable = True \<rparr>
       = Inr \<lparr> items = [''highScore_survival'' \<mapsto> RawText ''abc''], writable = True \<rparr>"
  by (simp add: saveHighScore_def item_or_zero_def getItem_def setItem_def Number_toString_def
      integer_part_def greater_than_def parseInt_string_def parse_magnitude_def parse_digits_def
      is_space_def is_digit_def Let_def)

text \<open>With whole numbers the stored high score is the maximum of the scores seen: an
  integer is written without a fraction, and \<open>parseInt\<close> reads it back.\<close>

lemma integer_part_of_int: "integer_part (of_int n) = n"
  by (simp add: integer_part_def)

lemma parseInt_integer:
  "\<bar>n\<bar> < 10 ^ 21 \<Longrightarrow> parseInt (Number_toString (of_int n)) = Some n"
proof -
  assume small: "\<bar>n\<bar> < 10 ^ 21"
  then have "\<bar>real_of_int n\<bar> < 10 ^ 21"
    by (metis of_int_abs of_int_less_iff of_int_numeral of_int_power)
  moreover have "n \<noteq> 0 \<Longrightarrow> 1 / 10 ^ 6 \<le> \<bar>real_of_int n\<bar>"
  proof -
    assume "n \<noteq> 0"
    then have "1 \<le> \<bar>n\<bar>" by simp
    then have "1 \<le> \<bar>real_of_int n\<bar>" by linarith
    then show ?thesis by simp
  qed
  ultimately show ?thesis
    by (auto simp: Number_toString_def integer_part_of_int)
qed

lemma saveHighScore_integers:
  assumes w: "writable ls"
    and stored: "getItem ls (''highScore_'' @ mode g) = Some (Number_toString (of_int h))"
    and small: "\<bar>h\<bar> < 10 ^ 21"
    and score: "go_score g = of_int n"
  shows "\<exists>ls1. saveHighScore today g ls = Inr ls1
    \<and> getItem ls1 (''highScore_'' @ mode g) = Some (Number_toString (of_int (max h n)))"
proof -
  have t: "truthy (Number_toString (of_int h))"
    by (simp add: Number_toString_def)
  have cur: "parseInt (item_or_zero ls (''highScore_'' @ mode g)) = Some h"
    using stored t small by (simp add: item_or_zero_def parseInt_integer)
  show ?thesis
  proof (cases "h < n")
    case True
    then show ?thesis
      using w cur score
      by (simp add: saveHighScore_def greater_than_def setItem_def getItem_def Let_def max_def)
  next
    case False
    then show ?thesis
      using stored cur score
      by (simp add: saveHighScore_def greater_than_def Let_def max_def)
  qed
qed

lemma saveHighScore_first:
  assumes "writable ls"
    and "getItem ls (''highScore_'' @ mode g) = None"
  shows "\<exists>ls1. saveHighScore today g ls = Inr ls1
    \<and> getItem ls1 (''highScore_'' @ mode g)
        = (if 0 < go_score g then Some (Number_toString (go_score g)) else None)"
  using assms
  by (auto simp: saveHighScore_def item_or_zero_def greater_than_def integer_part_def
      setItem_def getItem_def Number_toString_def Let_def)

end
